theory Spec2Isabelle
  imports Main
begin

section \<open>The signalling functions of comms-link\<close>

text \<open>
  The development embeds \<^verbatim>\<open>functions/src/index.ts\<close>: four HTTPS handlers
  (\<^verbatim>\<open>connectionOffer\<close>, \<^verbatim>\<open>getOffer\<close>, \<^verbatim>\<open>connectionAnswer\<close>,
  \<^verbatim>\<open>getAnswer\<close>) over one Firestore collection. The later revision of the same
  file renames connections to sessions (\<^verbatim>\<open>isValidSessionID\<close>, \<^verbatim>\<open>sessionOffer\<close>,
  collection \<^verbatim>\<open>sessions\<close>) and rewords the messages; its control flow is the same
  line for line.

  A JavaScript string is modelled as the list of its code units, so \<^verbatim>\<open>.length\<close>
  is \<open>length\<close>.
\<close>

subsection \<open>Values\<close>

text \<open>
  The handlers read \<^verbatim>\<open>request.body\<close> and \<^verbatim>\<open>request.query\<close> untyped, and only
  the connection name and the request password pass through \<^verbatim>\<open>toString()\<close>: the
  password, offer and answer of a body are stored as they arrive. A parameter or a stored
  field is therefore a JSON scalar, not only a string. A number is identified by its
  decimal rendering, the string that \<^verbatim>\<open>Number.prototype.toString\<close> gives
  (\<^verbatim>\<open>5\<close>, \<^verbatim>\<open>1.5\<close>, \<^verbatim>\<open>0\<close> for both zeros, \<^verbatim>\<open>NaN\<close>); no arithmetic is done on it. A value
  that is \<^verbatim>\<open>undefined\<close>, such as a missing parameter or field, is \<open>None\<close>.
  Arrays and objects are outside the model: the client library stores and renders them
  by rules of its own for nested data.
\<close>

datatype jsvalue = JNull | JBool bool | JNumber string | JString string

text \<open>\<^verbatim>\<open>v?.toString()\<close>: \<^verbatim>\<open>undefined\<close> when \<open>v\<close> is \<^verbatim>\<open>undefined\<close> or \<^verbatim>\<open>null\<close>.\<close>

fun toString :: "jsvalue option \<Rightarrow> string option" where
  "toString None = None"
| "toString (Some JNull) = None"
| "toString (Some (JBool b)) = Some (if b then ''true'' else ''false'')"
| "toString (Some (JNumber rendering)) = Some rendering"
| "toString (Some (JString s)) = Some s"

text \<open>\<^verbatim>\<open>v?.toString() ?? ""\<close>\<close>

definition or_empty :: "jsvalue option \<Rightarrow> string" where
  "or_empty v = (case toString v of None \<Rightarrow> [] | Some s \<Rightarrow> s)"

text \<open>\<^verbatim>\<open>v ?? ""\<close>: the value itself unless it is \<^verbatim>\<open>undefined\<close> or \<^verbatim>\<open>null\<close>.\<close>

fun or_empty_value :: "jsvalue option \<Rightarrow> jsvalue" where
  "or_empty_value None = JString []"
| "or_empty_value (Some JNull) = JString []"
| "or_empty_value (Some v) = v"

text \<open>
  JavaScript truthiness: \<^verbatim>\<open>undefined\<close>, \<^verbatim>\<open>null\<close>, \<^verbatim>\<open>false\<close>, the zeros,
  \<^verbatim>\<open>NaN\<close> and the empty string are falsy.
\<close>

fun truthy :: "jsvalue option \<Rightarrow> bool" where
  "truthy None = False"
| "truthy (Some JNull) = False"
| "truthy (Some (JBool b)) = b"
| "truthy (Some (JNumber rendering)) =
     (if rendering = ''0'' \<or> rendering = ''NaN'' then False else True)"
| "truthy (Some (JString s)) = (if s = [] then False else True)"

subsection \<open>Data\<close>

text \<open>
  \<^verbatim>\<open>interface ConnectionData { password?: string; offer?: string; answer?: string; }\<close>
  The interface declares strings; nothing checks it at run time, so a field holds whatever
  value was written.
\<close>

record ConnectionData =
  password :: "jsvalue option"
  offer :: "jsvalue option"
  answer :: "jsvalue option"

text \<open>
  The parameters a handler reads from \<^verbatim>\<open>request.body\<close> (the two publishing
  handlers) or \<^verbatim>\<open>request.query\<close> (the two fetching handlers).
\<close>

record request =
  connectionName_param :: "jsvalue option"
  password_param :: "jsvalue option"
  offer_param :: "jsvalue option"
  answer_param :: "jsvalue option"

text \<open>
  What \<^verbatim>\<open>response.status(s).json(b)\<close> is given. The body is either
  \<^verbatim>\<open>{success: true, data}\<close> or \<^verbatim>\<open>{success: false, error: message}\<close>; a
  \<^verbatim>\<open>data\<close> that is \<^verbatim>\<open>undefined\<close> is left out by the JSON encoding.
\<close>

datatype body = SuccessBody "jsvalue option" | ErrorBody string

record response =
  status :: nat
  json :: body

text \<open>
  A handler is an async function: it either sends a response, or its promise rejects with
  an error that no \<^verbatim>\<open>catch\<close> of the handler saw, and the handler has sent nothing.
\<close>

datatype outcome = is_Responded: Responded response | is_Rejected: Rejected string

text \<open>
  The Firestore collection \<^verbatim>\<open>connections\<close>. A document is addressed by its path
  below the collection, a list of segments: \<^verbatim>\<open>room\<close> is \<open>[''room'']\<close>, and
  \<^verbatim>\<open>a/b/c\<close> is the document \<^verbatim>\<open>c\<close> of a subcollection. A read or a write of the
  client may reject; \<open>get_error\<close> and \<open>set_error\<close> hold the error that the next read
  or write rejects with, rendered as a string, when there is one.
\<close>

record firestore =
  connections :: "string list \<rightharpoonup> ConnectionData"
  get_error :: "string option"
  set_error :: "string option"

subsection \<open>Helpers\<close>

definition sendSuccessResponse :: "jsvalue option \<Rightarrow> response" where
  "sendSuccessResponse data = \<lparr>status = 200, json = SuccessBody data\<rparr>"

definition sendErrorResponse :: "nat \<Rightarrow> string \<Rightarrow> response" where
  "sendErrorResponse st message = \<lparr>status = st, json = ErrorBody message\<rparr>"

definition isValidConnectionName :: "string \<Rightarrow> bool" where
  "isValidConnectionName connectionName =
     (if connectionName = [] \<or> length connectionName > 100 then False else True)"

text \<open>The same function under its later name.\<close>

definition isValidSessionID :: "string \<Rightarrow> bool" where
  "isValidSessionID sessionID =
     (if sessionID = [] \<or> length sessionID > 100 then False else True)"

text \<open>
  \<^verbatim>\<open>if (storedPassword) { if (requestPassword != storedPassword) { ... 403 ... } }\<close>
  with \<^verbatim>\<open>storedPassword = get("password")?.toString()\<close>: whether the nested test
  reaches the error branch.
\<close>

definition password_rejected :: "jsvalue option \<Rightarrow> string \<Rightarrow> bool" where
  "password_rejected stored requestPassword =
     (case toString stored of
        None \<Rightarrow> False
      | Some storedPassword \<Rightarrow>
          (if storedPassword = [] then False else requestPassword \<noteq> storedPassword))"

subsection \<open>The store\<close>

text \<open>
  \<^verbatim>\<open>collection("connections").doc(documentPath)\<close> of the Firestore client, which is
  not part of the repository. The client refuses an empty path and a path that contains
  \<^verbatim>\<open>//\<close>, splits the path at \<^verbatim>\<open>/\<close>, drops empty segments (a leading or trailing
  slash), and throws unless the segments, appended to the collection's own, name a
  document: unless their number is odd. So \<^verbatim>\<open>/room\<close> and \<^verbatim>\<open>room/\<close> are the document
  \<^verbatim>\<open>room\<close>, and \<^verbatim>\<open>a/b\<close> and \<^verbatim>\<open>/\<close> throw. The error is rendered as a string.
\<close>

fun js_split :: "char \<Rightarrow> string \<Rightarrow> string list" where
  "js_split sep [] = [[]]"
| "js_split sep (c # cs) =
     (if c = sep then [] # js_split sep cs
      else (case js_split sep cs of
              [] \<Rightarrow> [[c]]
            | w # ws \<Rightarrow> (c # w) # ws))"

fun has_double_slash :: "string \<Rightarrow> bool" where
  "has_double_slash (a # b # cs) =
     (if a = CHR ''/'' \<and> b = CHR ''/'' then True else has_double_slash (b # cs))"
| "has_double_slash cs = False"

definition quoted :: "string \<Rightarrow> string" where
  "quoted s = CHR 0x22 # s @ [CHR 0x22]"

definition doc :: "string \<Rightarrow> string + string list" where
  "doc documentPath =
     (if documentPath = []
      then Inl (''Error: Value for argument '' @ quoted ''documentPath'' @
                '' is not a valid resource path. Path must be a non-empty string.'')
      else if has_double_slash documentPath
      then Inl (''Error: Value for argument '' @ quoted ''documentPath'' @
                '' is not a valid resource path. Paths must not contain //.'')
      else
        let segments = filter (\<lambda>segment. segment \<noteq> []) (js_split CHR ''/'' documentPath) in
        if odd (length segments) then Inr segments
        else Inl (''Error: Value for argument '' @ quoted ''documentPath'' @
                  '' must point to a document, but was '' @ quoted documentPath @
                  ''. Your path does not contain an even number of components.''))"

text \<open>
  \<^verbatim>\<open>get()\<close> on a document reference: rejects, or yields a snapshot; \<open>None\<close> is a
  snapshot whose \<^verbatim>\<open>exists\<close> is false.
\<close>

definition doc_get :: "firestore \<Rightarrow> string list \<Rightarrow> string + ConnectionData option" where
  "doc_get db ref =
     (case get_error db of
        Some e \<Rightarrow> Inl e
      | None \<Rightarrow> Inr (connections db ref))"

text \<open>
  \<^verbatim>\<open>set(data, {merge: true})\<close> on a document reference writes the fields that
  \<open>data\<close> has and keeps the others; it creates the document when there is none.
\<close>

definition merge_fields :: "ConnectionData \<Rightarrow> ConnectionData \<Rightarrow> ConnectionData" where
  "merge_fields data old =
     \<lparr>password = (case password data of None \<Rightarrow> password old | Some v \<Rightarrow> Some v),
      offer = (case offer data of None \<Rightarrow> offer old | Some v \<Rightarrow> Some v),
      answer = (case answer data of None \<Rightarrow> answer old | Some v \<Rightarrow> Some v)\<rparr>"

definition doc_set_merge ::
  "firestore \<Rightarrow> string list \<Rightarrow> ConnectionData \<Rightarrow> string + firestore" where
  "doc_set_merge db ref data =
     (case set_error db of
        Some e \<Rightarrow> Inl e
      | None \<Rightarrow>
          Inr (db\<lparr>connections := (connections db)
                 (ref \<mapsto> (case connections db ref of
                             None \<Rightarrow> data
                           | Some old \<Rightarrow> merge_fields data old))\<rparr>))"

subsection \<open>The four handlers\<close>

text \<open>
  In \<open>connectionOffer\<close> the document reference is built after the two checks and
  before the \<^verbatim>\<open>try\<close> block, so a path that \<open>doc\<close> refuses makes the handler's
  promise reject; the write itself stands inside the \<^verbatim>\<open>try\<close>.
\<close>

definition connectionOffer :: "request \<Rightarrow> firestore \<Rightarrow> outcome \<times> firestore" where
  "connectionOffer req db =
     (let connectionName = or_empty (connectionName_param req) in
      if \<not> isValidConnectionName connectionName
      then (Responded (sendErrorResponse 403 ''Invalid connection name''), db)
      else
        let offerData = \<lparr>password = Some (or_empty_value (password_param req)),
                         offer = Some (or_empty_value (offer_param req)),
                         answer = None\<rparr> in
        if \<not> truthy (offer offerData)
        then (Responded (sendErrorResponse 403 ''Invalid offer''), db)
        else
          (case doc connectionName of
             Inl e \<Rightarrow> (Rejected e, db)
           | Inr connectionDocument \<Rightarrow>
               (case doc_set_merge db connectionDocument offerData of
                  Inr db' \<Rightarrow> (Responded (sendSuccessResponse (Some (JString ''Success''))), db')
                | Inl e \<Rightarrow> (Responded (sendErrorResponse 500 (''Error: '' @ e)), db))))"

text \<open>
  In the three handlers below both \<^verbatim>\<open>doc(connectionName)\<close> and the
  \<^verbatim>\<open>await ... .get()\<close> stand before the \<^verbatim>\<open>try\<close> block, so a refused path and a
  rejected read are not caught: the handler's promise rejects.
\<close>

definition getOffer :: "request \<Rightarrow> firestore \<Rightarrow> outcome \<times> firestore" where
  "getOffer req db =
     (let connectionName = or_empty (connectionName_param req);
          requestPassword = or_empty (password_param req) in
      if \<not> isValidConnectionName connectionName
      then (Responded (sendErrorResponse 403 ''Invalid connection name''), db)
      else
        (case doc connectionName of
           Inl e \<Rightarrow> (Rejected e, db)
         | Inr connectionDocument \<Rightarrow>
             (case doc_get db connectionDocument of
                Inl e \<Rightarrow> (Rejected e, db)
              | Inr None \<Rightarrow>
                  (Responded (sendErrorResponse 404 ''Connection offer not found''), db)
              | Inr (Some d) \<Rightarrow>
                  if password_rejected (password d) requestPassword
                  then (Responded (sendErrorResponse 403 ''Invalid or incorrect password''), db)
                  else (Responded (sendSuccessResponse (offer d)), db))))"

definition connectionAnswer :: "request \<Rightarrow> firestore \<Rightarrow> outcome \<times> firestore" where
  "connectionAnswer req db =
     (let connectionName = or_empty (connectionName_param req);
          requestPassword = or_empty (password_param req) in
      if \<not> isValidConnectionName connectionName
      then (Responded (sendErrorResponse 403 ''Invalid connection name''), db)
      else
        (case doc connectionName of
           Inl e \<Rightarrow> (Rejected e, db)
         | Inr connectionDocument \<Rightarrow>
             (case doc_get db connectionDocument of
                Inl e \<Rightarrow> (Rejected e, db)
              | Inr None \<Rightarrow>
                  (Responded (sendErrorResponse 404 ''Connection offer not found''), db)
              | Inr (Some d) \<Rightarrow>
                  if password_rejected (password d) requestPassword
                  then (Responded (sendErrorResponse 403 ''Invalid or incorrect password''), db)
                  else if \<not> truthy (offer d)
                  then (Responded (sendErrorResponse 403 ''Connection offer not found''), db)
                  else
                    (case doc_set_merge db connectionDocument
                            \<lparr>password = None, offer = None,
                             answer = Some (or_empty_value (answer_param req))\<rparr> of
                       Inr db' \<Rightarrow>
                         (Responded (sendSuccessResponse (Some (JString ''Success''))), db')
                     | Inl e \<Rightarrow>
                         (Responded (sendErrorResponse 500 (''Error: '' @ e)), db)))))"

definition getAnswer :: "request \<Rightarrow> firestore \<Rightarrow> outcome \<times> firestore" where
  "getAnswer req db =
     (let connectionName = or_empty (connectionName_param req) in
      if \<not> isValidConnectionName connectionName
      then (Responded (sendErrorResponse 403 ''Invalid connection name''), db)
      else
        (case doc connectionName of
           Inl e \<Rightarrow> (Rejected e, db)
         | Inr connectionDocument \<Rightarrow>
             (case doc_get db connectionDocument of
                Inl e \<Rightarrow> (Rejected e, db)
              | Inr None \<Rightarrow>
                  (Responded (sendErrorResponse 403 ''Connection does not exist''), db)
              | Inr (Some d) \<Rightarrow>
                  if truthy (answer d)
                  then (Responded (sendSuccessResponse (answer d)), db)
                  else (Responded (sendErrorResponse 404 ''Connection answer not found''), db))))"

subsection \<open>Failure kinds and their encoding\<close>








subsection \<open>Example data\<close>

text \<open>A store with one password-protected connection that has been answered.\<close>

definition room_record :: ConnectionData where
  "room_record =
     \<lparr>password = Some (JString ''secret''), offer = Some (JString ''offer-sdp''),
      answer = Some (JString ''answer-sdp'')\<rparr>"

definition room_db :: firestore where
  "room_db =
     \<lparr>connections = [[''room''] \<mapsto> room_record], get_error = None, set_error = None\<rparr>"

text \<open>A store whose one document has no field at all, as an outside writer can leave it.\<close>

definition bare_db :: firestore where
  "bare_db =
     \<lparr>connections = [[''room''] \<mapsto> \<lparr>password = None, offer = None, answer = None\<rparr>],
      get_error = None, set_error = None\<rparr>"

text \<open>A store with one open connection that has an offer and no answer yet.\<close>

definition open_record :: ConnectionData where
  "open_record =
     \<lparr>password = Some (JString []), offer = Some (JString ''offer-sdp''), answer = None\<rparr>"

definition open_db :: firestore where
  "open_db =
     \<lparr>connections = [[''room''] \<mapsto> open_record], get_error = None, set_error = None\<rparr>"

text \<open>A store whose one document has the empty string as its offer.\<close>

definition blank_record :: ConnectionData where
  "blank_record = \<lparr>password = None, offer = Some (JString []), answer = None\<rparr>"

definition blank_db :: firestore where
  "blank_db =
     \<lparr>connections = [[''room''] \<mapsto> blank_record], get_error = None, set_error = None\<rparr>"

text \<open>A store without documents.\<close>

definition empty_db :: firestore where
  "empty_db = \<lparr>connections = Map.empty, get_error = None, set_error = None\<rparr>"

text \<open>
  A request for the connection \<^verbatim>\<open>room\<close> with the given password and payloads, all
  strings.
\<close>

definition room_request :: "string option \<Rightarrow> string option \<Rightarrow> string option \<Rightarrow> request" where
  "room_request pw off ans =
     \<lparr>connectionName_param = Some (JString ''room''), password_param = map_option JString pw,
      offer_param = map_option JString off, answer_param = map_option JString ans\<rparr>"

text \<open>A request to publish an offer under the given name, without a password.\<close>

definition offer_request :: "string \<Rightarrow> jsvalue \<Rightarrow> request" where
  "offer_request name payload =
     \<lparr>connectionName_param = Some (JString name), password_param = None,
      offer_param = Some payload, answer_param = None\<rparr>"

section \<open>Properties\<close>

subsection \<open>Identifier validation\<close>

text \<open>
  C6. The identifier validator accepts a string exactly when its length is between 1 and
  100 inclusive, under either of its two names; a 100-character identifier is accepted
  and a 101-character identifier is rejected.
\<close>

theorem isValidConnectionName_iff_length:
  "(isValidConnectionName s \<longleftrightarrow> (1 \<le> length s \<and> length s \<le> 100)) \<and>
   (isValidSessionID s \<longleftrightarrow> (1 \<le> length s \<and> length s \<le> 100)) \<and>
   isValidConnectionName (replicate 100 CHR ''a'') \<and>
   \<not> isValidConnectionName (replicate 101 CHR ''a'')"
proof -
  have nonempty: "1 \<le> length s \<longleftrightarrow> s \<noteq> []"
    by (cases s) simp_all
  show ?thesis
    unfolding isValidConnectionName_def isValidSessionID_def nonempty
    by (simp add: not_less)
qed

subsection \<open>Document paths\<close>

lemma room_is_valid: "isValidConnectionName ''room''"
  by (simp add: isValidConnectionName_def)

lemma doc_room: "doc ''room'' = Inr [''room'']"
  by (simp add: doc_def)

lemma doc_slash_room: "doc ''/room'' = Inr [''room''] \<and> doc ''room/'' = Inr [''room'']"
  by (simp add: doc_def)

lemma doc_nested: "doc ''a/b/c'' = Inr [''a'', ''b'', ''c'']"
  by (simp add: doc_def)

lemma js_split_no_separator: "sep \<notin> set s \<Longrightarrow> js_split sep s = [s]"
  by (induction s) auto

lemma has_double_slash_no_slash: "CHR ''/'' \<notin> set s \<Longrightarrow> \<not> has_double_slash s"
  by (induction s rule: has_double_slash.induct) auto

lemma doc_without_slash: "s \<noteq> [] \<Longrightarrow> CHR ''/'' \<notin> set s \<Longrightarrow> doc s = Inr [s]"
  by (simp add: doc_def js_split_no_separator has_double_slash_no_slash)

lemma doc_refuses: "isl (doc ''a/b'') \<and> isl (doc ''/'') \<and> isl (doc ''a//b'')"
  by (simp add: doc_def)

subsection \<open>What each handler does once the name addresses a document\<close>

lemma or_empty_JString: "or_empty (Some (JString s)) = s"
  by (simp add: or_empty_def)

lemma truthy_or_empty_value: "truthy (Some (or_empty_value v)) = truthy v"
  by (cases v rule: or_empty_value.cases) simp_all

lemma merge_fields_offer:
  "merge_fields \<lparr>password = Some a, offer = Some b, answer = None\<rparr> old =
     old\<lparr>password := Some a, offer := Some b\<rparr>"
  by (cases old) (simp add: merge_fields_def)

lemma merge_fields_answer:
  "merge_fields \<lparr>password = None, offer = None, answer = Some v\<rparr> old = old\<lparr>answer := Some v\<rparr>"
  by (cases old) (simp add: merge_fields_def)

lemma connectionOffer_stores:
  assumes "isValidConnectionName name" "connectionName_param req = Some (JString name)"
    "doc name = Inr ref" "truthy (offer_param req)" "set_error db = None"
  shows "connectionOffer req db =
    (Responded (sendSuccessResponse (Some (JString ''Success''))),
     db\<lparr>connections := (connections db)
       (ref \<mapsto> (case connections db ref of
           None \<Rightarrow> \<lparr>password = Some (or_empty_value (password_param req)),
                    offer = Some (or_empty_value (offer_param req)), answer = None\<rparr>
         | Some old \<Rightarrow> old\<lparr>password := Some (or_empty_value (password_param req)),
                            offer := Some (or_empty_value (offer_param req))\<rparr>))\<rparr>)"
  using assms
  by (simp add: connectionOffer_def or_empty_JString truthy_or_empty_value doc_set_merge_def
      merge_fields_offer Let_def split: option.splits)

lemma getOffer_found:
  assumes "isValidConnectionName name" "connectionName_param req = Some (JString name)"
    "doc name = Inr ref" "get_error db = None" "connections db ref = Some d"
  shows "getOffer req db =
    (if password_rejected (password d) (or_empty (password_param req))
     then (Responded (sendErrorResponse 403 ''Invalid or incorrect password''), db)
     else (Responded (sendSuccessResponse (offer d)), db))"
  using assms by (simp add: getOffer_def or_empty_JString doc_get_def)

lemma connectionAnswer_found:
  assumes "isValidConnectionName name" "connectionName_param req = Some (JString name)"
    "doc name = Inr ref" "get_error db = None" "connections db ref = Some d"
  shows "connectionAnswer req db =
    (if password_rejected (password d) (or_empty (password_param req))
     then (Responded (sendErrorResponse 403 ''Invalid or incorrect password''), db)
     else if \<not> truthy (offer d)
     then (Responded (sendErrorResponse 403 ''Connection offer not found''), db)
     else (case set_error db of
             Some e \<Rightarrow> (Responded (sendErrorResponse 500 (''Error: '' @ e)), db)
           | None \<Rightarrow> (Responded (sendSuccessResponse (Some (JString ''Success''))),
                       db\<lparr>connections := (connections db)
                          (ref \<mapsto> d\<lparr>answer := Some (or_empty_value (answer_param req))\<rparr>)\<rparr>)))"
  using assms
  by (simp add: connectionAnswer_def or_empty_JString doc_get_def doc_set_merge_def
      merge_fields_answer split: option.splits)

lemma getAnswer_found:
  assumes "isValidConnectionName name" "connectionName_param req = Some (JString name)"
    "doc name = Inr ref" "get_error db = None" "connections db ref = Some d"
  shows "getAnswer req db =
    (if truthy (answer d)
     then (Responded (sendSuccessResponse (answer d)), db)
     else (Responded (sendErrorResponse 404 ''Connection answer not found''), db))"
  using assms by (simp add: getAnswer_def or_empty_JString doc_get_def)

lemma password_rejected_cases:
  "password_rejected stored supplied \<longleftrightarrow>
     (\<exists>sp. toString stored = Some sp \<and> sp \<noteq> [] \<and> supplied \<noteq> sp)"
  by (auto simp add: password_rejected_def split: option.splits)

lemmas example_defs = room_record_def room_db_def bare_db_def open_record_def open_db_def
  blank_record_def blank_db_def empty_db_def room_request_def offer_request_def

text \<open>
  A leading slash does not change the document that a name addresses: \<open>getOffer\<close>
  for \<^verbatim>\<open>/room\<close> reads the record of \<^verbatim>\<open>room\<close>. A name of three segments
  addresses a document of a subcollection, which \<open>connectionOffer\<close> creates.
\<close>

lemma getOffer_leading_slash:
  "getOffer \<lparr>connectionName_param = Some (JString ''/room''),
      password_param = Some (JString ''secret''), offer_param = None, answer_param = None\<rparr>
     room_db =
   (Responded \<lparr>status = 200, json = SuccessBody (Some (JString ''offer-sdp''))\<rparr>, room_db)"
  by (simp add: getOffer_def isValidConnectionName_def or_empty_JString doc_slash_room
      doc_get_def room_db_def room_record_def password_rejected_def sendSuccessResponse_def)

lemma connectionOffer_nested_path:
  "connectionOffer (offer_request ''a/b/c'' (JString ''offer-sdp'')) empty_db =
   (Responded \<lparr>status = 200, json = SuccessBody (Some (JString ''Success''))\<rparr>,
    empty_db\<lparr>connections :=
      [[''a'', ''b'', ''c''] \<mapsto>
         \<lparr>password = Some (JString []), offer = Some (JString ''offer-sdp''), answer = None\<rparr>]\<rparr>)"
  by (simp add: connectionOffer_def isValidConnectionName_def or_empty_JString doc_nested
      doc_set_merge_def offer_request_def empty_db_def sendSuccessResponse_def)

subsection \<open>Store failures\<close>

text \<open>
  C1. A store failure is to come back as a response of status 500 that carries the cause.
  A rejected write in \<open>connectionOffer\<close> does; a rejected read in \<open>getOffer\<close>,
  \<open>connectionAnswer\<close> and \<open>getAnswer\<close> does not: with the read rejecting with
  \<^verbatim>\<open>unavailable\<close>, each of the three sends no response and its promise rejects with
  that error.
\<close>

theorem store_read_failure_not_caught:
  "fst (getOffer (room_request (Some ''secret'') None None)
          (room_db\<lparr>get_error := Some ''unavailable''\<rparr>)) = Rejected ''unavailable'' \<and>
   fst (connectionAnswer (room_request (Some ''secret'') None (Some ''answer-sdp''))
          (room_db\<lparr>get_error := Some ''unavailable''\<rparr>)) = Rejected ''unavailable'' \<and>
   fst (getAnswer (room_request None None None)
          (room_db\<lparr>get_error := Some ''unavailable''\<rparr>)) = Rejected ''unavailable'' \<and>
   fst (connectionOffer (room_request None (Some ''offer-sdp'') None)
          (room_db\<lparr>set_error := Some ''unavailable''\<rparr>)) =
     Responded (sendErrorResponse 500 ''Error: unavailable'')"
  by (simp add: getOffer_def connectionAnswer_def getAnswer_def connectionOffer_def
      example_defs room_is_valid or_empty_JString doc_room doc_get_def doc_set_merge_def)

subsection \<open>The password gate\<close>



subsection \<open>Publishing the offer again\<close>

text \<open>
  C5. When a record already has an answer, publishing an offer again under the same name
  overwrites the record's offer and password fields and leaves the answer as it was.
\<close>

theorem republish_keeps_answer:
  assumes "isValidConnectionName name" "connectionName_param req = Some (JString name)"
    "doc name = Inr ref"
    "offer_param req = Some (JString p)" "p \<noteq> []" "set_error db = None"
    "connections db ref = Some d" "answer d = Some a"
  shows "connections (snd (connectionOffer req db)) ref =
           Some \<lparr>password = Some (or_empty_value (password_param req)),
                 offer = Some (JString p), answer = Some a\<rparr>"
proof -
  have "truthy (offer_param req)"
    using assms(4,5) by simp
  then have "connections (snd (connectionOffer req db)) ref =
          Some (d\<lparr>password := Some (or_empty_value (password_param req)),
                  offer := Some (JString p)\<rparr>)"
    using connectionOffer_stores [of name req ref db] assms by simp
  with \<open>answer d = Some a\<close> show ?thesis
    by (cases d) simp
qed

theorem republish_keeps_answer_witness:
  "isValidConnectionName ''room'' \<and>
   connections (snd (connectionOffer (room_request (Some ''other'') (Some ''new-offer'') None)
       room_db)) [''room''] =
     Some \<lparr>password = Some (JString ''other''), offer = Some (JString ''new-offer''),
           answer = Some (JString ''answer-sdp'')\<rparr>"
  using republish_keeps_answer
    [of "''room''" "room_request (Some ''other'') (Some ''new-offer'') None" "[''room'']"
        "''new-offer''" room_db room_record "JString ''answer-sdp''"]
  by (simp add: room_is_valid doc_room example_defs)

subsection \<open>Fetching the answer\<close>

text \<open>
  C2. For a record with a non-empty stored password and a non-empty answer,
  \<open>getAnswer\<close> with a valid name succeeds, with status 200 and the answer as the
  data, whatever password the request carries or lacks: no password is checked.
\<close>

theorem getAnswer_ignores_password:
  assumes "isValidConnectionName name" "connectionName_param req = Some (JString name)"
    "doc name = Inr ref" "get_error db = None" "connections db ref = Some d"
    "password d = Some (JString p)" "p \<noteq> []" "answer d = Some (JString a)" "a \<noteq> []"
  shows "getAnswer (req\<lparr>password_param := pw\<rparr>) db =
           (Responded \<lparr>status = 200, json = SuccessBody (Some (JString a))\<rparr>, db)"
  using assms getAnswer_found [of name "req\<lparr>password_param := pw\<rparr>" ref db d]
  by (simp add: sendSuccessResponse_def)

theorem getAnswer_ignores_password_witness:
  "isValidConnectionName ''room'' \<and> doc ''room'' = Inr [''room''] \<and>
   getAnswer ((room_request (Some ''secret'') None None)\<lparr>password_param := None\<rparr>) room_db =
     (Responded \<lparr>status = 200, json = SuccessBody (Some (JString ''answer-sdp''))\<rparr>, room_db) \<and>
   getAnswer ((room_request (Some ''secret'') None None)
       \<lparr>password_param := Some (JString ''wrong'')\<rparr>) room_db =
     (Responded \<lparr>status = 200, json = SuccessBody (Some (JString ''answer-sdp''))\<rparr>, room_db)"
  using
    getAnswer_ignores_password
      [of "''room''" "room_request (Some ''secret'') None None" "[''room'']" room_db
          room_record "''secret''" "''answer-sdp''" None]
    getAnswer_ignores_password
      [of "''room''" "room_request (Some ''secret'') None None" "[''room'']" room_db
          room_record "''secret''" "''answer-sdp''" "Some (JString ''wrong'')"]
  by (simp add: room_is_valid doc_room example_defs)



subsection \<open>Publishing and fetching the offer\<close>

text \<open>
  C3. Publishing an offer and fetching it back is to succeed for every valid identifier.
  The identifier \<^verbatim>\<open>a/b\<close> is valid, and \<open>connectionOffer\<close> sends no response for it
  and stores nothing: the client refuses the path before the \<^verbatim>\<open>try\<close> block, and the
  promise rejects. \<open>getOffer\<close> for the same identifier rejects in the same way.
\<close>

theorem publish_offer_refused_path:
  "isValidConnectionName ''a/b'' \<and>
   is_Rejected (fst (connectionOffer (offer_request ''a/b'' (JString ''offer-sdp'')) empty_db)) \<and>
   snd (connectionOffer (offer_request ''a/b'' (JString ''offer-sdp'')) empty_db) = empty_db \<and>
   is_Rejected (fst (getOffer (offer_request ''a/b'' (JString ''offer-sdp'')) empty_db))"
  by (simp add: connectionOffer_def getOffer_def offer_request_def isValidConnectionName_def
      or_empty_JString doc_def)

text \<open>
  For every valid name that addresses a document (the client accepts it as a document
  path, as it does every name without a slash) and every non-empty offer payload \<open>p\<close>,
  the round trip holds: publishing \<open>p\<close> without a password on any store contents
  succeeds with status 200, and fetching the offer without a password afterwards succeeds
  with status 200 and exactly \<open>p\<close> as the data.
\<close>

theorem publish_then_fetch_offer:
  assumes "isValidConnectionName name" "doc name = Inr ref" "p \<noteq> []"
    "get_error db = None" "set_error db = None"
  shows "\<exists>db'.
           connectionOffer \<lparr>connectionName_param = Some (JString name), password_param = None,
               offer_param = Some (JString p), answer_param = x\<rparr> db
             = (Responded \<lparr>status = 200, json = SuccessBody (Some (JString ''Success''))\<rparr>, db') \<and>
           getOffer \<lparr>connectionName_param = Some (JString name), password_param = None,
               offer_param = y, answer_param = z\<rparr> db'
             = (Responded \<lparr>status = 200, json = SuccessBody (Some (JString p))\<rparr>, db')"
proof -
  let ?pub = "\<lparr>connectionName_param = Some (JString name), password_param = None,
             offer_param = Some (JString p), answer_param = x\<rparr>"
  let ?fetch = "\<lparr>connectionName_param = Some (JString name), password_param = None,
             offer_param = y, answer_param = z\<rparr>"
  let ?doc = "case connections db ref of
      None \<Rightarrow> \<lparr>password = Some (JString []), offer = Some (JString p), answer = None\<rparr>
    | Some old \<Rightarrow> old\<lparr>password := Some (JString []), offer := Some (JString p)\<rparr>"
  let ?db' = "db\<lparr>connections := (connections db)(ref \<mapsto> ?doc)\<rparr>"
  have pub: "connectionOffer ?pub db =
      (Responded \<lparr>status = 200, json = SuccessBody (Some (JString ''Success''))\<rparr>, ?db')"
    using connectionOffer_stores [of name ?pub ref db] assms
    by (simp add: sendSuccessResponse_def split: option.splits)
  have "getOffer ?fetch ?db' =
      (Responded \<lparr>status = 200, json = SuccessBody (Some (JString p))\<rparr>, ?db')"
    using getOffer_found [of name ?fetch ref ?db' ?doc] assms
    by (simp add: password_rejected_def sendSuccessResponse_def split: option.splits)
  with pub show ?thesis by blast
qed

theorem publish_then_fetch_offer_witness:
  "isValidConnectionName ''room'' \<and> doc ''room'' = Inr [''room''] \<and>
   (\<exists>db'.
      connectionOffer \<lparr>connectionName_param = Some (JString ''room''), password_param = None,
          offer_param = Some (JString ''new-offer''), answer_param = None\<rparr> room_db
        = (Responded \<lparr>status = 200, json = SuccessBody (Some (JString ''Success''))\<rparr>, db') \<and>
      getOffer \<lparr>connectionName_param = Some (JString ''room''), password_param = None,
          offer_param = None, answer_param = None\<rparr> db'
        = (Responded \<lparr>status = 200, json = SuccessBody (Some (JString ''new-offer''))\<rparr>, db'))"
  using publish_then_fetch_offer
    [of "''room''" "[''room'']" "''new-offer''" room_db None None None]
  by (simp add: room_is_valid doc_room room_db_def)

subsection \<open>Empty payloads and missing offers\<close>

text \<open>
  C7, as stated, at a concrete input: publish-answer with an absent answer payload is to
  succeed on every record with a present offer whose password check passes. On a record
  whose offer is present and is the empty string, with no password, \<open>connectionAnswer\<close>
  fails with status 403 and the offer-not-found message, and stores nothing.
\<close>

theorem empty_offer_blocks_answer:
  "connections blank_db [''room''] = Some blank_record \<and>
   offer blank_record = Some (JString []) \<and> password blank_record = None \<and>
   connectionAnswer (room_request None None None) blank_db =
     (Responded \<lparr>status = 403, json = ErrorBody ''Connection offer not found''\<rparr>, blank_db)"
  by (simp add: connectionAnswer_def example_defs room_is_valid or_empty_JString doc_room
      doc_get_def password_rejected_def sendErrorResponse_def)

text \<open>
  C7, amended. For an existing record with a non-empty offer whose password check passes,
  \<open>connectionAnswer\<close> with an absent or empty answer payload succeeds with status 200
  and stores the empty string as the answer; \<open>connectionOffer\<close> given the same absent
  or empty payload as its offer fails with status 403 and the invalid-offer message.
\<close>

theorem empty_answer_accepted:
  assumes "isValidConnectionName name" "connectionName_param req = Some (JString name)"
    "doc name = Inr ref"
    "get_error db = None" "set_error db = None" "connections db ref = Some d"
    "offer d = Some (JString off)" "off \<noteq> []"
    "password d = None \<or> password d = Some (JString []) \<or>
     password d = Some (JString (or_empty (password_param req)))"
    "answer_param req = None \<or> answer_param req = Some (JString [])"
  shows
    "connectionAnswer req db =
       (Responded \<lparr>status = 200, json = SuccessBody (Some (JString ''Success''))\<rparr>,
        db\<lparr>connections := (connections db)(ref \<mapsto> d\<lparr>answer := Some (JString [])\<rparr>)\<rparr>) \<and>
     connectionOffer (req\<lparr>offer_param := answer_param req\<rparr>) db =
       (Responded \<lparr>status = 403, json = ErrorBody ''Invalid offer''\<rparr>, db)"
proof -
  have gate: "\<not> password_rejected (password d) (or_empty (password_param req))"
    using assms(9) by (auto simp add: password_rejected_cases)
  have payload: "or_empty_value (answer_param req) = JString []"
    using assms(10) by auto
  have "connectionAnswer req db =
       (Responded \<lparr>status = 200, json = SuccessBody (Some (JString ''Success''))\<rparr>,
        db\<lparr>connections := (connections db)(ref \<mapsto> d\<lparr>answer := Some (JString [])\<rparr>)\<rparr>)"
    using connectionAnswer_found [OF assms(1,2,3,4,6)] gate payload assms(5,7,8)
    by (simp add: sendSuccessResponse_def)
  moreover have "connectionOffer (req\<lparr>offer_param := answer_param req\<rparr>) db =
       (Responded \<lparr>status = 403, json = ErrorBody ''Invalid offer''\<rparr>, db)"
    using assms(1,2) payload
    by (simp add: connectionOffer_def or_empty_JString sendErrorResponse_def Let_def)
  ultimately show ?thesis by simp
qed

theorem empty_answer_accepted_witness:
  "isValidConnectionName ''room'' \<and> doc ''room'' = Inr [''room''] \<and>
   connectionAnswer (room_request None None None) open_db =
     (Responded \<lparr>status = 200, json = SuccessBody (Some (JString ''Success''))\<rparr>,
      open_db\<lparr>connections := (connections open_db)
        ([''room''] \<mapsto> \<lparr>password = Some (JString []), offer = Some (JString ''offer-sdp''),
                        answer = Some (JString [])\<rparr>)\<rparr>) \<and>
   connectionOffer ((room_request None None None)\<lparr>offer_param := None\<rparr>) open_db =
     (Responded \<lparr>status = 403, json = ErrorBody ''Invalid offer''\<rparr>, open_db)"
  using empty_answer_accepted [of "''room''" "room_request None None None" "[''room'']"
      open_db open_record "''offer-sdp''"]
  by (simp add: room_is_valid doc_room example_defs)

text \<open>
  C10. \<open>getOffer\<close> does not check that the record has an offer: for an existing
  record whose offer field is absent or empty and whose password check passes, it
  succeeds with status 200 and sends the absent or empty offer value as the data, while
  \<open>connectionAnswer\<close> on the same record fails with status 403 and the
  offer-not-found message.
\<close>

theorem getOffer_no_offer_check:
  assumes "isValidConnectionName name" "connectionName_param req = Some (JString name)"
    "doc name = Inr ref" "get_error db = None" "connections db ref = Some d"
    "offer d = None \<or> offer d = Some (JString [])"
    "password d = None \<or> password d = Some (JString []) \<or>
     password d = Some (JString (or_empty (password_param req)))"
  shows
    "getOffer req db = (Responded \<lparr>status = 200, json = SuccessBody (offer d)\<rparr>, db) \<and>
     connectionAnswer req db =
       (Responded \<lparr>status = 403, json = ErrorBody ''Connection offer not found''\<rparr>, db)"
proof -
  have gate: "\<not> password_rejected (password d) (or_empty (password_param req))"
    using assms(7) by (auto simp add: password_rejected_cases)
  have falsy: "\<not> truthy (offer d)"
    using assms(6) by auto
  show ?thesis
    using getOffer_found [OF assms(1-5)] connectionAnswer_found [OF assms(1-5)] gate falsy
    by (simp add: sendSuccessResponse_def sendErrorResponse_def)
qed

theorem getOffer_no_offer_check_witness:
  "isValidConnectionName ''room'' \<and> doc ''room'' = Inr [''room''] \<and>
   getOffer (room_request None None None) bare_db =
     (Responded \<lparr>status = 200, json = SuccessBody None\<rparr>, bare_db) \<and>
   connectionAnswer (room_request None None None) bare_db =
     (Responded \<lparr>status = 403, json = ErrorBody ''Connection offer not found''\<rparr>, bare_db) \<and>
   getOffer (room_request None None None) blank_db =
     (Responded \<lparr>status = 200, json = SuccessBody (Some (JString []))\<rparr>, blank_db) \<and>
   connectionAnswer (room_request None None None) blank_db =
     (Responded \<lparr>status = 403, json = ErrorBody ''Connection offer not found''\<rparr>, blank_db)"
  using
    getOffer_no_offer_check [of "''room''" "room_request None None None" "[''room'']" bare_db
      "\<lparr>password = None, offer = None, answer = None\<rparr>"]
    getOffer_no_offer_check [of "''room''" "room_request None None None" "[''room'']" blank_db
      blank_record]
  by (simp add: room_is_valid doc_room example_defs)

subsection \<open>The response envelope and the status table\<close>




end
